theory Spec2Isabelle
  imports Complex_Main
begin

section \<open>Python values\<close>

text \<open>
  A Python \<open>str\<close> is a sequence of Unicode code points: \<open>len\<close>, slicing and \<open>strip\<close>
  count code points, so a string is a list of code-point numbers. \<open>ascii\<close> writes an
  ASCII literal of the source.
\<close>

type_synonym pystr = "nat list"

definition ascii :: "string \<Rightarrow> pystr" where
  "ascii s = map of_char s"

text \<open>
  A float as far as the handlers read it: the value of a decimal literal, or one of the
  non-finite values the JSON parser also accepts.
\<close>

datatype pyfloat = Finite rat | NaN | PosInfinity | NegInfinity

text \<open>
  The values a parsed JSON document is made of, and the handlers' own dictionaries.
  A \<open>dict\<close> is an association list in insertion order.
\<close>

datatype pyval =
    PNone
  | PBool bool
  | PInt int
  | PFloat pyfloat
  | PStr pystr
  | PList "pyval list"
  | PDict "(pystr \<times> pyval) list"

text \<open>Truth value of an object, as \<open>not data\<close> tests it.\<close>

fun truthy :: "pyval \<Rightarrow> bool" where
  "truthy PNone = False"
| "truthy (PBool b) = b"
| "truthy (PInt i) = (i \<noteq> 0)"
| "truthy (PFloat f) = (f \<noteq> Finite 0)"
| "truthy (PStr s) = (s \<noteq> [])"
| "truthy (PList xs) = (xs \<noteq> [])"
| "truthy (PDict d) = (d \<noteq> [])"

text \<open>\<open>type(v).__name__\<close>, which the message of an \<open>AttributeError\<close> quotes.\<close>

fun type_name :: "pyval \<Rightarrow> pystr" where
  "type_name PNone = ascii ''NoneType''"
| "type_name (PBool b) = ascii ''bool''"
| "type_name (PInt i) = ascii ''int''"
| "type_name (PFloat f) = ascii ''float''"
| "type_name (PStr s) = ascii ''str''"
| "type_name (PList xs) = ascii ''list''"
| "type_name (PDict d) = ascii ''dict''"

text \<open>\<open>str(e)\<close> of the \<open>AttributeError\<close> raised by \<open>v.attr\<close> on a value without \<open>attr\<close>.\<close>

definition attribute_error :: "pyval \<Rightarrow> pystr \<Rightarrow> pystr" where
  "attribute_error v attr =
     [39] @ type_name v @ [39] @ ascii '' object has no attribute '' @ [39] @ attr @ [39]"

text \<open>
  \<open>str.isspace\<close> on one code point: the whitespace table of the interpreter
  (tab to carriage return, the four separators 0x1C to 0x1F, space, NEL, no-break space
  and the Unicode space separators).
\<close>

definition is_space :: "nat \<Rightarrow> bool" where
  "is_space c =
     ((9 \<le> c \<and> c \<le> 13) \<or> (28 \<le> c \<and> c \<le> 32) \<or> c = 133 \<or> c = 160 \<or> c = 5760
      \<or> (8192 \<le> c \<and> c \<le> 8202) \<or> c = 8232 \<or> c = 8233 \<or> c = 8239 \<or> c = 8287
      \<or> c = 12288)"

text \<open>\<open>s.strip()\<close>: whitespace removed at both ends, the inside kept.\<close>

definition strip :: "pystr \<Rightarrow> pystr" where
  "strip s = rev (dropWhile is_space (rev (dropWhile is_space s)))"

text \<open>\<open>d.get(k, default)\<close> on a dictionary.\<close>

definition dict_get :: "(pystr \<times> pyval) list \<Rightarrow> pystr \<Rightarrow> pyval \<Rightarrow> pyval" where
  "dict_get d k dflt = (case map_of d k of None \<Rightarrow> dflt | Some v \<Rightarrow> v)"

section \<open>Requests, the provider and replies\<close>

text \<open>The route accepts \<open>POST\<close> and \<open>OPTIONS\<close> only.\<close>

datatype http_method = POST | OPTIONS

text \<open>
  What \<open>request.get_json()\<close> does on a request: it returns the parsed document (\<open>None\<close>
  for the document \<open>null\<close> and where the framework finds no JSON to parse), or, called as
  here without \<open>silent\<close>, raises the framework's \<open>BadRequest\<close> when the body cannot be
  parsed; \<open>Raised\<close> carries \<open>str(e)\<close> of the exception.
\<close>

datatype 'a outcome = Raised pystr | Returned 'a

record request =
  request_method :: http_method
  get_json :: "pyval outcome"

record generation_config =
  max_output_tokens :: int
  temperature :: rat

text \<open>
  The \<open>text\<close> attribute of the object the provider returns, as line 131 reads it:
  absent or \<open>None\<close>, a string, or an accessor that raises. \<open>getattr\<close> with a default
  absorbs an \<open>AttributeError\<close> only (that is \<open>TextAbsent\<close>); any other exception of the
  accessor leaves the \<open>try\<close> block, and \<open>TextRaises\<close> carries its \<open>str(e)\<close>.
\<close>

datatype text_attr = TextAbsent | TextValue pystr | TextRaises pystr

text \<open>The provider's answer object. The call may also return a false object, \<open>None\<close> here.\<close>

datatype response = Response (response_text: text_attr)

record generative_model =
  model_name :: pystr
  generate_content :: "pystr \<Rightarrow> generation_config \<Rightarrow> response option outcome"

text \<open>The module-level state the handler reads: the model selected at start, if any.\<close>

record app_state =
  model :: "generative_model option"

text \<open>What a handler does besides replying: log lines and calls of the provider.\<close>

datatype event =
    LogInfo pystr
  | LogError pystr
  | Generate pystr generation_config

fun is_provider_call :: "event \<Rightarrow> bool" where
  "is_provider_call (Generate p c) = True"
| "is_provider_call _ = False"

record reply =
  status :: nat
  body :: pyval
  headers :: "(pystr \<times> pystr) list"

record result =
  reply :: reply
  events :: "event list"
  state :: app_state

text \<open>The value under a key of a JSON object, \<open>None\<close> where there is none.\<close>

definition json_field :: "pyval \<Rightarrow> pystr \<Rightarrow> pyval" where
  "json_field v k = (case v of PDict d \<Rightarrow> dict_get d k PNone | _ \<Rightarrow> PNone)"

text \<open>\<open>jsonify(d), code\<close>: a JSON reply to which the handler has added no header.\<close>

definition jsonify :: "(pystr \<times> pyval) list \<Rightarrow> nat \<Rightarrow> reply" where
  "jsonify d code = \<lparr>status = code, body = PDict d, headers = []\<rparr>"

text \<open>\<open>for k, v in response_headers.items(): result.headers.add(k, v)\<close>\<close>

definition add_headers :: "(pystr \<times> pystr) list \<Rightarrow> reply \<Rightarrow> reply" where
  "add_headers hs r = r\<lparr>headers := headers r @ hs\<rparr>"

section \<open>The assistant endpoint\<close>

definition response_headers :: "(pystr \<times> pystr) list" where
  "response_headers =
     [(ascii ''Access-Control-Allow-Origin'', ascii ''https://iitianshreyash01.github.io''),
      (ascii ''Access-Control-Allow-Headers'', ascii ''Content-Type''),
      (ascii ''Access-Control-Allow-Methods'', ascii ''GET,POST,OPTIONS'')]"

definition system_prompt :: pystr where
  "system_prompt =
     ascii ''You are MedAI Pro, an AI health assistant. Provide CONCISE, PRACTICAL advice.''
     @ [10, 10]
     @ ascii ''Response Format:'' @ [10]
     @ ascii ''1. **Symptoms Analysis**: 2'' @ [8211] @ ascii ''3 lines about likely cause.'' @ [10]
     @ ascii ''2. **Possible Causes**: 2'' @ [8211] @ ascii ''3 bullet points.'' @ [10]
     @ ascii ''3. **Home Care**: 2'' @ [8211] @ ascii ''3 remedies.'' @ [10]
     @ ascii ''4. **Medicines**: Include examples (Paracetamol, Ibuprofen, etc.).'' @ [10]
     @ ascii ''5. **When to See Doctor**: When to seek professional help.'' @ [10, 10]
     @ [9888, 65039] @ ascii '' Keep total response <150 words. Always end with: ''
     @ [8220, 9888, 65039] @ ascii '' This is NOT professional medical advice.'' @ [8221]"

text \<open>\<open>f"{system_prompt}\n\nUser Symptom: {user_input}"\<close>\<close>

definition full_message :: "pystr \<Rightarrow> pystr" where
  "full_message user_input = system_prompt @ [10, 10] @ ascii ''User Symptom: '' @ user_input"

definition config :: generation_config where
  "config = \<lparr>max_output_tokens = 500, temperature = 0.7\<rparr>"

text \<open>
  \<open>data.get("message", "").strip()\<close>: only a \<open>dict\<close> has \<open>get\<close> and only a \<open>str\<close> has
  \<open>strip\<close>; on anything else the attribute lookup raises.
\<close>

definition user_input_of :: "pyval \<Rightarrow> pystr outcome" where
  "user_input_of data =
     (case data of
        PDict d \<Rightarrow>
          (case dict_get d (ascii ''message'') (PStr []) of
             PStr s \<Rightarrow> Returned (strip s)
           | v \<Rightarrow> Raised (attribute_error v (ascii ''strip'')))
      | v \<Rightarrow> Raised (attribute_error v (ascii ''get'')))"

text \<open>
  \<open>response and getattr(response, "text", None)\<close>: nothing for a false object and for
  an absent text, the text where there is one, or the exception of the accessor.
\<close>

definition read_text :: "response option \<Rightarrow> pystr option outcome" where
  "read_text resp =
     (case resp of
        None \<Rightarrow> Returned None
      | Some (Response TextAbsent) \<Rightarrow> Returned None
      | Some (Response (TextValue t)) \<Rightarrow> Returned (Some t)
      | Some (Response (TextRaises e)) \<Rightarrow> Raised e)"

text \<open>
  The reply built from the text that was read, lines 131 to 144: an empty string is
  false as well.
\<close>

definition answer :: "pystr option \<Rightarrow> pystr \<Rightarrow> reply" where
  "answer txt now =
     add_headers response_headers
       (case txt of
          Some t \<Rightarrow>
            (if t \<noteq> [] then
               jsonify [(ascii ''success'', PBool True),
                        (ascii ''response'', PStr t),
                        (ascii ''timestamp'', PStr now)] 200
             else
               jsonify [(ascii ''success'', PBool False),
                        (ascii ''error'', PStr (ascii ''Empty response from AI model.''))] 200)
        | None \<Rightarrow>
            jsonify [(ascii ''success'', PBool False),
                     (ascii ''error'', PStr (ascii ''Empty response from AI model.''))] 200)"

text \<open>
  The body of the \<open>try\<close> block: the events it has caused, and either the exception that
  left it or the reply it returned. \<open>now\<close> is \<open>datetime.now().isoformat()\<close>.
\<close>

definition try_block :: "app_state \<Rightarrow> request \<Rightarrow> pystr \<Rightarrow> event list \<times> reply outcome" where
  "try_block st req now =
     (case get_json req of
        Raised e \<Rightarrow> ([], Raised e)
      | Returned data \<Rightarrow>
          if \<not> truthy data then
            ([], Returned (jsonify [(ascii ''error'', PStr (ascii ''No JSON data provided''))] 400))
          else
            (case user_input_of data of
               Raised e \<Rightarrow> ([], Raised e)
             | Returned user_input \<Rightarrow>
                 if user_input = [] then
                   ([], Returned (jsonify
                          [(ascii ''error'', PStr (ascii ''Message cannot be empty''))] 400))
                 else
                   (case model st of
                      None \<Rightarrow>
                        ([], Returned (jsonify
                               [(ascii ''error'', PStr (ascii ''AI model not initialized.'')),
                                (ascii ''success'', PBool False)] 500))
                    | Some m \<Rightarrow>
                        (let evs = [LogInfo (ascii ''Processing query: '' @ take 60 user_input
                                             @ ascii ''...''),
                                    Generate (full_message user_input) config]
                         in case generate_content m (full_message user_input) config of
                              Raised e \<Rightarrow> (evs, Raised e)
                            | Returned resp \<Rightarrow>
                                (case read_text resp of
                                   Raised e \<Rightarrow> (evs, Raised e)
                                 | Returned txt \<Rightarrow> (evs, Returned (answer txt now)))))))"

text \<open>The \<open>except Exception as e\<close> branch, lines 146 to 154.\<close>

definition server_error :: "pystr \<Rightarrow> reply" where
  "server_error e =
     add_headers response_headers
       (jsonify [(ascii ''error'', PStr (ascii ''Server error: '' @ take 100 e)),
                 (ascii ''success'', PBool False)] 500)"

definition preflight :: reply where
  "preflight =
     add_headers response_headers
       (jsonify [(ascii ''status'', PStr (ascii ''CORS preflight OK''))] 200)"

text \<open>The handler never assigns a global, so the state it returns is the one it got.\<close>

definition ai_doctor :: "app_state \<Rightarrow> request \<Rightarrow> pystr \<Rightarrow> result" where
  "ai_doctor st req now =
     (if request_method req = OPTIONS then \<lparr>reply = preflight, events = [], state = st\<rparr>
      else
        (case try_block st req now of
           (evs, Returned r) \<Rightarrow> \<lparr>reply = r, events = evs, state = st\<rparr>
         | (evs, Raised e) \<Rightarrow>
             \<lparr>reply = server_error e,
              events = evs @ [LogError (ascii ''Error in ai_doctor endpoint: '' @ e)],
              state = st\<rparr>))"

text \<open>The calls of the provider among the events, in order.\<close>

definition provider_calls :: "event list \<Rightarrow> event list" where
  "provider_calls evs = filter is_provider_call evs"

section \<open>The specialists endpoint\<close>

definition specialist :: "int \<Rightarrow> string \<Rightarrow> string \<Rightarrow> rat \<Rightarrow> pyval" where
  "specialist i n s r =
     PDict [(ascii ''id'', PInt i), (ascii ''name'', PStr (ascii n)),
            (ascii ''specialty'', PStr (ascii s)), (ascii ''rating'', PFloat (Finite r))]"

definition specialists :: "pyval list" where
  "specialists =
     [specialist 1 ''Dr. Rajesh Kumar'' ''Cardiology'' 4.8,
      specialist 2 ''Dr. Priya Sharma'' ''Dermatology'' 4.7,
      specialist 3 ''Dr. Amit Patel'' ''Neurology'' 4.9,
      specialist 4 ''Dr. Anjali Singh'' ''Pediatrics'' 4.6,
      specialist 5 ''Dr. Vikram Gupta'' ''Orthopedics'' 4.8]"

text \<open>The handler reads neither the request nor the state.\<close>

definition get_specialists :: reply where
  "get_specialists =
     jsonify [(ascii ''success'', PBool True), (ascii ''specialists'', PList specialists)] 200"

section \<open>Trimming\<close>

lemma strip_Nil_iff: "strip s = [] \<longleftrightarrow> list_all is_space s"
proof
  assume "strip s = []"
  then have "\<forall>x\<in>set (dropWhile is_space s). is_space x"
    by (simp add: strip_def)
  then have "dropWhile is_space s = []"
    by (metis hd_dropWhile list.set_sel(1))
  then show "list_all is_space s"
    by (simp add: list_all_iff)
next
  assume "list_all is_space s"
  then show "strip s = []"
    by (auto simp: strip_def list_all_iff dest: set_dropWhileD)
qed

text \<open>Trimming removes a run of whitespace at each end and nothing else.\<close>

lemma strip_decomp:
  "\<exists>l r. s = l @ strip s @ r \<and> list_all is_space l \<and> list_all is_space r"
proof -
  let ?l = "takeWhile is_space s"
  let ?t = "dropWhile is_space s"
  let ?r = "rev (takeWhile is_space (rev ?t))"
  have "rev ?t = takeWhile is_space (rev ?t) @ dropWhile is_space (rev ?t)"
    by simp
  then have "?t = strip s @ ?r"
    by (metis rev_append rev_rev_ident strip_def)
  then have "s = ?l @ strip s @ ?r"
    by (metis takeWhile_dropWhile_id)
  moreover have "list_all is_space ?l"
    by (simp add: list_all_iff) (meson set_takeWhileD)
  moreover have "list_all is_space ?r"
    by (simp add: list_all_iff) (meson set_takeWhileD)
  ultimately show ?thesis by blast
qed

text \<open>A message that neither starts nor ends with whitespace is its own trimming.\<close>

lemma strip_id:
  assumes "s \<noteq> []" "\<not> is_space (hd s)" "\<not> is_space (last s)"
  shows "strip s = s"
proof -
  from assms have "dropWhile is_space s = s"
    by (cases s) simp_all
  moreover from assms have "dropWhile is_space (rev s) = rev s"
    by (cases "rev s") (simp_all add: hd_rev)
  ultimately show ?thesis
    by (simp add: strip_def)
qed

section \<open>Status codes of the reply builders\<close>

lemma status_answer: "status (answer txt now) = 200"
  by (simp add: answer_def add_headers_def jsonify_def split: option.splits)

lemma status_server_error: "status (server_error e) = 500"
  by (simp add: server_error_def add_headers_def jsonify_def)

lemma status_preflight: "status preflight = 200"
  by (simp add: preflight_def add_headers_def jsonify_def)

lemma body_server_error:
  "body (server_error e) =
     PDict [(ascii ''error'', PStr (ascii ''Server error: '' @ take 100 e)),
            (ascii ''success'', PBool False)]"
  by (simp add: server_error_def add_headers_def jsonify_def)

section \<open>The validation steps\<close>

text \<open>A dictionary that holds a string under \<open>message\<close> passes both lookups.\<close>

lemma user_input_of_str:
  "map_of d (ascii ''message'') = Some (PStr m) \<Longrightarrow> user_input_of (PDict d) = Returned (strip m)"
  by (simp add: user_input_of_def dict_get_def)

lemma truthy_has_key: "map_of d k = Some v \<Longrightarrow> truthy (PDict d)"
  by (cases d) simp_all

text \<open>The \<open>try\<close> block on a request whose message is a string.\<close>

lemma try_block_message:
  assumes "get_json req = Returned (PDict d)"
    and "map_of d (ascii ''message'') = Some (PStr m)"
  shows "try_block st req now =
     (if strip m = [] then
        ([], Returned (jsonify [(ascii ''error'', PStr (ascii ''Message cannot be empty''))] 400))
      else
        (case model st of
           None \<Rightarrow>
             ([], Returned (jsonify [(ascii ''error'', PStr (ascii ''AI model not initialized.'')),
                                     (ascii ''success'', PBool False)] 500))
         | Some gm \<Rightarrow>
             (case generate_content gm (full_message (strip m)) config of
                Raised e \<Rightarrow>
                  ([LogInfo (ascii ''Processing query: '' @ take 60 (strip m) @ ascii ''...''),
                    Generate (full_message (strip m)) config], Raised e)
              | Returned resp \<Rightarrow>
                  ([LogInfo (ascii ''Processing query: '' @ take 60 (strip m) @ ascii ''...''),
                    Generate (full_message (strip m)) config],
                   (case read_text resp of
                      Raised e \<Rightarrow> Raised e
                    | Returned txt \<Rightarrow> Returned (answer txt now))))))"
  using assms truthy_has_key [OF assms(2)]
  by (simp add: try_block_def user_input_of_str Let_def split: option.splits outcome.splits)

section \<open>Claims about the assistant endpoint\<close>

text \<open>
  C1. A POST whose body cannot be parsed as JSON should be answered with 400. The handler
  calls \<open>get_json\<close> inside its \<open>try\<close> block, so the framework's \<open>BadRequest\<close> is caught by
  \<open>except Exception\<close> and the reply is 500, with the 400 of the framework only quoted in
  the error text. Evaluated here on the request whose \<open>get_json\<close> raises.
\<close>

theorem ai_doctor_unparsable_body:
  "reply (ai_doctor \<lparr>model = None\<rparr>
            \<lparr>request_method = POST, get_json = Raised (ascii ''400 Bad Request: Failed to decode JSON object'')\<rparr>
            (ascii ''2025-01-01T00:00:00''))
   = \<lparr>status = 500,
      body = PDict [(ascii ''error'',
                     PStr (ascii ''Server error: 400 Bad Request: Failed to decode JSON object'')),
                    (ascii ''success'', PBool False)],
      headers = response_headers\<rparr>"
  by (simp add: ai_doctor_def try_block_def server_error_def add_headers_def jsonify_def ascii_def)

text \<open>
  The part of C1 the handler does implement: when \<open>get_json\<close> returns nothing (or any
  false value), the reply is 400 with the message of line 110, and nothing else happens.
\<close>

lemma ai_doctor_no_json_data:
  assumes "request_method req = POST" and "get_json req = Returned data" and "\<not> truthy data"
  shows "ai_doctor st req now =
           \<lparr>reply = \<lparr>status = 400,
                     body = PDict [(ascii ''error'', PStr (ascii ''No JSON data provided''))],
                     headers = []\<rparr>,
            events = [], state = st\<rparr>"
  using assms by (simp add: ai_doctor_def try_block_def jsonify_def)

text \<open>
  C2. A POST whose JSON body has a \<open>message\<close> that is empty or made of whitespace only
  is answered with 400 and the error text \<open>Message cannot be empty\<close>, and the provider is
  not called.
\<close>

theorem ai_doctor_empty_message:
  assumes "request_method req = POST"
    and "get_json req = Returned (PDict d)"
    and "map_of d (ascii ''message'') = Some (PStr m)"
    and "list_all is_space m"
  shows "status (reply (ai_doctor st req now)) = 400
       \<and> body (reply (ai_doctor st req now))
           = PDict [(ascii ''error'', PStr (ascii ''Message cannot be empty''))]
       \<and> provider_calls (events (ai_doctor st req now)) = []"
proof -
  from assms(4) have "strip m = []"
    by (simp add: strip_Nil_iff)
  with assms(1) try_block_message [OF assms(2,3)] show ?thesis
    by (simp add: ai_doctor_def jsonify_def provider_calls_def)
qed

theorem ai_doctor_empty_message_witness:
  "list_all is_space (ascii ''   '')
   \<and> status (reply (ai_doctor \<lparr>model = None\<rparr>
        \<lparr>request_method = POST, get_json = Returned (PDict [(ascii ''message'', PStr (ascii ''   ''))])\<rparr>
        (ascii ''2025-01-01T00:00:00''))) = 400
   \<and> provider_calls (events (ai_doctor \<lparr>model = None\<rparr>
        \<lparr>request_method = POST, get_json = Returned (PDict [(ascii ''message'', PStr (ascii ''   ''))])\<rparr>
        (ascii ''2025-01-01T00:00:00''))) = []"
proof -
  have sp: "list_all is_space (ascii ''   '')"
    by (simp add: ascii_def is_space_def)
  show ?thesis
    using sp ai_doctor_empty_message
      [where req = "\<lparr>request_method = POST,
                     get_json = Returned (PDict [(ascii ''message'', PStr (ascii ''   ''))])\<rparr>"
         and d = "[(ascii ''message'', PStr (ascii ''   ''))]" and m = "ascii ''   ''"
         and st = "\<lparr>model = None\<rparr>" and now = "ascii ''2025-01-01T00:00:00''"]
    by simp
qed

text \<open>
  C3, as stated: the provider receives the template followed by the user's input as it
  was sent. The handler trims the message first, so the message \<open>" flu"\<close> reaches the
  provider as \<open>"flu"\<close>.
\<close>

theorem ai_doctor_prompt_counterexample:
  "provider_calls (events (ai_doctor
      \<lparr>model = Some \<lparr>model_name = ascii ''gemini-pro'',
                      generate_content = (\<lambda>p c. Returned None)\<rparr>\<rparr>
      \<lparr>request_method = POST, get_json = Returned (PDict [(ascii ''message'', PStr (ascii '' flu''))])\<rparr>
      (ascii ''2025-01-01T00:00:00'')))
   = [Generate (system_prompt @ [10, 10] @ ascii ''User Symptom: '' @ ascii ''flu'') config]
   \<and> system_prompt @ [10, 10] @ ascii ''User Symptom: '' @ ascii ''flu''
     \<noteq> system_prompt @ [10, 10] @ ascii ''User Symptom: '' @ ascii '' flu''"
proof -
  have "strip (ascii '' flu'') = ascii ''flu''"
    by (simp add: strip_def ascii_def is_space_def)
  then show ?thesis
    by (simp add: ai_doctor_def try_block_def user_input_of_def dict_get_def read_text_def
        full_message_def provider_calls_def ascii_def)
qed

text \<open>
  C3, amended: for a POST whose message is not empty after trimming, with a model
  initialized, the provider is called exactly once, with the system prompt, the label
  \<open>User Symptom:\<close> after a blank line, and the trimmed message, and with the budget of
  500 output tokens at temperature 0.7.
\<close>

theorem ai_doctor_prompt_sent:
  assumes "request_method req = POST"
    and "get_json req = Returned (PDict d)"
    and "map_of d (ascii ''message'') = Some (PStr m)"
    and "strip m \<noteq> []"
    and "model st = Some gm"
  shows "provider_calls (events (ai_doctor st req now))
         = [Generate (system_prompt @ [10, 10] @ ascii ''User Symptom: '' @ strip m)
                     \<lparr>max_output_tokens = 500, temperature = 0.7\<rparr>]"
  using assms(1,4,5) try_block_message [OF assms(2,3), of st now]
  by (cases "generate_content gm (full_message (strip m)) config")
     (simp_all add: ai_doctor_def provider_calls_def full_message_def config_def
        split: outcome.splits)

theorem ai_doctor_prompt_sent_witness:
  "strip (ascii '' flu '') \<noteq> []
   \<and> provider_calls (events (ai_doctor
        \<lparr>model = Some \<lparr>model_name = ascii ''gemini-pro'',
                        generate_content = (\<lambda>p c. Returned None)\<rparr>\<rparr>
        \<lparr>request_method = POST, get_json = Returned (PDict [(ascii ''message'', PStr (ascii '' flu ''))])\<rparr>
        (ascii ''2025-01-01T00:00:00'')))
     = [Generate (system_prompt @ [10, 10] @ ascii ''User Symptom: '' @ ascii ''flu'')
                 \<lparr>max_output_tokens = 500, temperature = 0.7\<rparr>]"
proof -
  have st: "strip (ascii '' flu '') = ascii ''flu''"
    by (simp add: strip_def ascii_def is_space_def)
  have ne: "ascii ''flu'' \<noteq> []"
    by (simp add: ascii_def)
  show ?thesis
    using st ne ai_doctor_prompt_sent
      [where req = "\<lparr>request_method = POST,
                     get_json = Returned (PDict [(ascii ''message'', PStr (ascii '' flu ''))])\<rparr>"
         and d = "[(ascii ''message'', PStr (ascii '' flu ''))]" and m = "ascii '' flu ''"
         and st = "\<lparr>model = Some \<lparr>model_name = ascii ''gemini-pro'',
                                   generate_content = (\<lambda>p c. Returned None)\<rparr>\<rparr>"
         and gm = "\<lparr>model_name = ascii ''gemini-pro'', generate_content = (\<lambda>p c. Returned None)\<rparr>"
         and now = "ascii ''2025-01-01T00:00:00''"]
    by simp
qed

text \<open>
  C4, as stated: whenever the provider call returns without raising, the reply is 200.
  Line 131 then reads the text of the returned object, and \<open>getattr\<close> absorbs an
  \<open>AttributeError\<close> only: when the accessor raises anything else, the exception is caught
  by \<open>except Exception\<close> and the reply is 500, although the call itself has returned.
\<close>

theorem ai_doctor_provider_returns_counterexample:
  "generate_content
      \<lparr>model_name = ascii ''gemini-pro'',
       generate_content = (\<lambda>p c. Returned (Some (Response (TextRaises (ascii ''no valid Part'')))))\<rparr>
      (full_message (ascii ''flu'')) config
   = Returned (Some (Response (TextRaises (ascii ''no valid Part''))))
   \<and> reply (ai_doctor
        \<lparr>model = Some \<lparr>model_name = ascii ''gemini-pro'',
                        generate_content =
                          (\<lambda>p c. Returned (Some (Response (TextRaises (ascii ''no valid Part'')))))\<rparr>\<rparr>
        \<lparr>request_method = POST,
         get_json = Returned (PDict [(ascii ''message'', PStr (ascii ''flu''))])\<rparr>
        (ascii ''2025-01-01T00:00:00''))
     = \<lparr>status = 500,
        body = PDict [(ascii ''error'', PStr (ascii ''Server error: no valid Part'')),
                      (ascii ''success'', PBool False)],
        headers = response_headers\<rparr>"
proof -
  have "strip (ascii ''flu'') = ascii ''flu''"
    by (simp add: strip_def ascii_def is_space_def)
  then show ?thesis
    by (simp add: ai_doctor_def try_block_def user_input_of_def dict_get_def read_text_def
        server_error_def add_headers_def jsonify_def ascii_def)
qed

text \<open>
  C4, amended: when the provider call returns, the reply is decided by the text of the
  returned object. If reading it does not raise, the reply is 200: with a text that is
  not empty the body is \<open>success = True\<close>, that text and the timestamp; with an empty or
  absent text, or a false object, it is \<open>success = False\<close> and the error text of line
  140. If reading it raises, the reply is the 500 of the \<open>except\<close> branch. So the success
  flag is true exactly when there is a text and it is not empty, and the status is 200
  exactly when reading the text does not raise.
\<close>

theorem ai_doctor_provider_returns:
  assumes "request_method req = POST"
    and "get_json req = Returned (PDict d)"
    and "map_of d (ascii ''message'') = Some (PStr m)"
    and "strip m \<noteq> []"
    and "model st = Some gm"
    and "generate_content gm (full_message (strip m)) config = Returned resp"
  shows "reply (ai_doctor st req now)
         = (case resp of
              None \<Rightarrow>
                \<lparr>status = 200,
                 body = PDict [(ascii ''success'', PBool False),
                               (ascii ''error'', PStr (ascii ''Empty response from AI model.''))],
                 headers = response_headers\<rparr>
            | Some (Response TextAbsent) \<Rightarrow>
                \<lparr>status = 200,
                 body = PDict [(ascii ''success'', PBool False),
                               (ascii ''error'', PStr (ascii ''Empty response from AI model.''))],
                 headers = response_headers\<rparr>
            | Some (Response (TextValue t)) \<Rightarrow>
                (if t \<noteq> [] then
                   \<lparr>status = 200,
                    body = PDict [(ascii ''success'', PBool True),
                                  (ascii ''response'', PStr t),
                                  (ascii ''timestamp'', PStr now)],
                    headers = response_headers\<rparr>
                 else
                   \<lparr>status = 200,
                    body = PDict [(ascii ''success'', PBool False),
                                  (ascii ''error'', PStr (ascii ''Empty response from AI model.''))],
                    headers = response_headers\<rparr>)
            | Some (Response (TextRaises e)) \<Rightarrow>
                \<lparr>status = 500,
                 body = PDict [(ascii ''error'', PStr (ascii ''Server error: '' @ take 100 e)),
                               (ascii ''success'', PBool False)],
                 headers = response_headers\<rparr>)
       \<and> (json_field (body (reply (ai_doctor st req now))) (ascii ''success'') = PBool True)
           = (\<exists>t. resp = Some (Response (TextValue t)) \<and> t \<noteq> [])
       \<and> (status (reply (ai_doctor st req now)) = 200)
           = (\<forall>e. resp \<noteq> Some (Response (TextRaises e)))"
proof -
  have tb: "try_block st req now =
      ([LogInfo (ascii ''Processing query: '' @ take 60 (strip m) @ ascii ''...''),
        Generate (full_message (strip m)) config],
       (case read_text resp of
          Raised e \<Rightarrow> Raised e
        | Returned txt \<Rightarrow> Returned (answer txt now)))"
    using assms(4,5,6) try_block_message [OF assms(2,3), of st now] by simp
  show ?thesis
  proof (cases resp)
    case None
    with assms(1) tb show ?thesis
      by (simp add: ai_doctor_def read_text_def answer_def add_headers_def jsonify_def
          json_field_def dict_get_def)
  next
    case (Some r)
    obtain a where r: "r = Response a"
      by (cases r)
    show ?thesis
    proof (cases a)
      case TextAbsent
      with assms(1) tb Some r show ?thesis
        by (simp add: ai_doctor_def read_text_def answer_def add_headers_def jsonify_def
            json_field_def dict_get_def)
    next
      case (TextValue t)
      with assms(1) tb Some r show ?thesis
        by (simp add: ai_doctor_def read_text_def answer_def add_headers_def jsonify_def
            json_field_def dict_get_def)
    next
      case (TextRaises e)
      with assms(1) tb Some r show ?thesis
        by (simp add: ai_doctor_def read_text_def server_error_def add_headers_def jsonify_def
            json_field_def dict_get_def ascii_def)
    qed
  qed
qed

theorem ai_doctor_provider_returns_witness:
  "strip (ascii ''flu'') \<noteq> []
   \<and> reply (ai_doctor
        \<lparr>model = Some \<lparr>model_name = ascii ''gemini-pro'',
                        generate_content =
                          (\<lambda>p c. Returned (Some (Response (TextValue (ascii ''Rest'')))))\<rparr>\<rparr>
        \<lparr>request_method = POST,
         get_json = Returned (PDict [(ascii ''message'', PStr (ascii ''flu''))])\<rparr>
        (ascii ''2025-01-01T00:00:00''))
     = \<lparr>status = 200,
        body = PDict [(ascii ''success'', PBool True),
                      (ascii ''response'', PStr (ascii ''Rest'')),
                      (ascii ''timestamp'', PStr (ascii ''2025-01-01T00:00:00''))],
        headers = response_headers\<rparr>
   \<and> reply (ai_doctor
        \<lparr>model = Some \<lparr>model_name = ascii ''gemini-pro'',
                        generate_content = (\<lambda>p c. Returned (Some (Response (TextValue []))))\<rparr>\<rparr>
        \<lparr>request_method = POST,
         get_json = Returned (PDict [(ascii ''message'', PStr (ascii ''flu''))])\<rparr>
        (ascii ''2025-01-01T00:00:00''))
     = \<lparr>status = 200,
        body = PDict [(ascii ''success'', PBool False),
                      (ascii ''error'', PStr (ascii ''Empty response from AI model.''))],
        headers = response_headers\<rparr>"
proof -
  have st: "strip (ascii ''flu'') = ascii ''flu''"
    by (simp add: strip_def ascii_def is_space_def)
  have ne: "ascii ''flu'' \<noteq> []" "ascii ''Rest'' \<noteq> []"
    by (simp_all add: ascii_def)
  show ?thesis
    using st ne
      ai_doctor_provider_returns
        [where req = "\<lparr>request_method = POST,
                       get_json = Returned (PDict [(ascii ''message'', PStr (ascii ''flu''))])\<rparr>"
           and d = "[(ascii ''message'', PStr (ascii ''flu''))]" and m = "ascii ''flu''"
           and st = "\<lparr>model = Some \<lparr>model_name = ascii ''gemini-pro'',
                 generate_content =
                   (\<lambda>p c. Returned (Some (Response (TextValue (ascii ''Rest'')))))\<rparr>\<rparr>"
           and gm = "\<lparr>model_name = ascii ''gemini-pro'',
                 generate_content =
                   (\<lambda>p c. Returned (Some (Response (TextValue (ascii ''Rest'')))))\<rparr>"
           and resp = "Some (Response (TextValue (ascii ''Rest'')))"
           and now = "ascii ''2025-01-01T00:00:00''"]
      ai_doctor_provider_returns
        [where req = "\<lparr>request_method = POST,
                       get_json = Returned (PDict [(ascii ''message'', PStr (ascii ''flu''))])\<rparr>"
           and d = "[(ascii ''message'', PStr (ascii ''flu''))]" and m = "ascii ''flu''"
           and st = "\<lparr>model = Some \<lparr>model_name = ascii ''gemini-pro'',
                 generate_content = (\<lambda>p c. Returned (Some (Response (TextValue []))))\<rparr>\<rparr>"
           and gm = "\<lparr>model_name = ascii ''gemini-pro'',
                 generate_content = (\<lambda>p c. Returned (Some (Response (TextValue []))))\<rparr>"
           and resp = "Some (Response (TextValue []))"
           and now = "ascii ''2025-01-01T00:00:00''"]
    by simp
qed

text \<open>
  C5. When the provider call raises, the reply is 500 with \<open>success = False\<close> and the
  error text \<open>Server error:\<close> followed by the first 100 characters of the exception's
  message.
\<close>

theorem ai_doctor_provider_raises:
  assumes "request_method req = POST"
    and "get_json req = Returned (PDict d)"
    and "map_of d (ascii ''message'') = Some (PStr m)"
    and "strip m \<noteq> []"
    and "model st = Some gm"
    and "generate_content gm (full_message (strip m)) config = Raised e"
  shows "status (reply (ai_doctor st req now)) = 500
       \<and> body (reply (ai_doctor st req now))
           = PDict [(ascii ''error'', PStr (ascii ''Server error: '' @ take 100 e)),
                    (ascii ''success'', PBool False)]
       \<and> length (take 100 e) \<le> 100"
  using assms(1,4,5,6) try_block_message [OF assms(2,3), of st now]
  by (simp add: ai_doctor_def status_server_error body_server_error)

theorem ai_doctor_provider_raises_witness:
  "strip (ascii ''flu'') \<noteq> []
   \<and> status (reply (ai_doctor
        \<lparr>model = Some \<lparr>model_name = ascii ''gemini-pro'',
                        generate_content = (\<lambda>p c. Raised (replicate 150 120))\<rparr>\<rparr>
        \<lparr>request_method = POST, get_json = Returned (PDict [(ascii ''message'', PStr (ascii ''flu''))])\<rparr>
        (ascii ''2025-01-01T00:00:00''))) = 500
   \<and> body (reply (ai_doctor
        \<lparr>model = Some \<lparr>model_name = ascii ''gemini-pro'',
                        generate_content = (\<lambda>p c. Raised (replicate 150 120))\<rparr>\<rparr>
        \<lparr>request_method = POST, get_json = Returned (PDict [(ascii ''message'', PStr (ascii ''flu''))])\<rparr>
        (ascii ''2025-01-01T00:00:00'')))
     = PDict [(ascii ''error'', PStr (ascii ''Server error: '' @ replicate 100 120)),
              (ascii ''success'', PBool False)]"
proof -
  have st: "strip (ascii ''flu'') = ascii ''flu''"
    by (simp add: strip_def ascii_def is_space_def)
  have ne: "ascii ''flu'' \<noteq> []"
    by (simp add: ascii_def)
  show ?thesis
    using st ne ai_doctor_provider_raises
      [where req = "\<lparr>request_method = POST,
                     get_json = Returned (PDict [(ascii ''message'', PStr (ascii ''flu''))])\<rparr>"
         and d = "[(ascii ''message'', PStr (ascii ''flu''))]" and m = "ascii ''flu''"
         and st = "\<lparr>model = Some \<lparr>model_name = ascii ''gemini-pro'',
               generate_content = (\<lambda>p c. Raised (replicate 150 120))\<rparr>\<rparr>"
         and gm = "\<lparr>model_name = ascii ''gemini-pro'',
               generate_content = (\<lambda>p c. Raised (replicate 150 120))\<rparr>"
         and e = "replicate 150 120"
         and now = "ascii ''2025-01-01T00:00:00''"]
    by simp
qed

text \<open>
  C6. A POST with a message that is not empty after trimming, when no model was
  initialized, is answered with 500, \<open>success = False\<close> and an error text, and the
  provider is not called.
\<close>

theorem ai_doctor_no_model:
  assumes "request_method req = POST"
    and "get_json req = Returned (PDict d)"
    and "map_of d (ascii ''message'') = Some (PStr m)"
    and "strip m \<noteq> []"
    and "model st = None"
  shows "status (reply (ai_doctor st req now)) = 500
       \<and> body (reply (ai_doctor st req now))
           = PDict [(ascii ''error'', PStr (ascii ''AI model not initialized.'')),
                    (ascii ''success'', PBool False)]
       \<and> provider_calls (events (ai_doctor st req now)) = []"
  using assms(1,4,5) try_block_message [OF assms(2,3), of st now]
  by (simp add: ai_doctor_def jsonify_def provider_calls_def)

theorem ai_doctor_no_model_witness:
  "strip (ascii ''flu'') \<noteq> []
   \<and> status (reply (ai_doctor \<lparr>model = None\<rparr>
        \<lparr>request_method = POST, get_json = Returned (PDict [(ascii ''message'', PStr (ascii ''flu''))])\<rparr>
        (ascii ''2025-01-01T00:00:00''))) = 500
   \<and> provider_calls (events (ai_doctor \<lparr>model = None\<rparr>
        \<lparr>request_method = POST, get_json = Returned (PDict [(ascii ''message'', PStr (ascii ''flu''))])\<rparr>
        (ascii ''2025-01-01T00:00:00''))) = []"
proof -
  have st: "strip (ascii ''flu'') = ascii ''flu''"
    by (simp add: strip_def ascii_def is_space_def)
  have ne: "ascii ''flu'' \<noteq> []"
    by (simp add: ascii_def)
  show ?thesis
    using st ne ai_doctor_no_model
      [where req = "\<lparr>request_method = POST,
                     get_json = Returned (PDict [(ascii ''message'', PStr (ascii ''flu''))])\<rparr>"
         and d = "[(ascii ''message'', PStr (ascii ''flu''))]" and m = "ascii ''flu''"
         and st = "\<lparr>model = None\<rparr>" and now = "ascii ''2025-01-01T00:00:00''"]
    by simp
qed

text \<open>
  C7. An OPTIONS request is answered with 200 and the fixed body
  \<open>{"status": "CORS preflight OK"}\<close>, whatever the body of the request, the model and
  the time are; nothing is logged, the provider is not called and the state is kept.
\<close>

theorem ai_doctor_preflight:
  "ai_doctor st \<lparr>request_method = OPTIONS, get_json = j\<rparr> now
   = \<lparr>reply = \<lparr>status = 200,
               body = PDict [(ascii ''status'', PStr (ascii ''CORS preflight OK''))],
               headers = response_headers\<rparr>,
      events = [], state = st\<rparr>"
  by (simp add: ai_doctor_def preflight_def add_headers_def jsonify_def)

text \<open>
  C9. A POST whose JSON body has a \<open>message\<close> that is not a string is answered through
  the \<open>except\<close> branch: the lookup of \<open>strip\<close> raises, the reply is 500 with
  \<open>success = False\<close> and the truncated message of the exception, not 400, and the provider
  is not called.
\<close>

theorem ai_doctor_message_not_string:
  assumes "request_method req = POST"
    and "get_json req = Returned (PDict d)"
    and "map_of d (ascii ''message'') = Some v"
    and "\<forall>s. v \<noteq> PStr s"
  shows "reply (ai_doctor st req now) = server_error (attribute_error v (ascii ''strip''))
       \<and> status (reply (ai_doctor st req now)) = 500
       \<and> body (reply (ai_doctor st req now))
           = PDict [(ascii ''error'',
                     PStr (ascii ''Server error: '' @ take 100 (attribute_error v (ascii ''strip'')))),
                    (ascii ''success'', PBool False)]
       \<and> provider_calls (events (ai_doctor st req now)) = []"
proof -
  from assms(3,4) have "user_input_of (PDict d) = Raised (attribute_error v (ascii ''strip''))"
    by (cases v) (simp_all add: user_input_of_def dict_get_def)
  with assms(2) truthy_has_key [OF assms(3)]
  have "try_block st req now = ([], Raised (attribute_error v (ascii ''strip'')))"
    by (simp add: try_block_def)
  with assms(1) show ?thesis
    by (simp add: ai_doctor_def status_server_error body_server_error provider_calls_def)
qed

theorem ai_doctor_message_not_string_witness:
  "(\<forall>s. PInt 5 \<noteq> PStr s)
   \<and> status (reply (ai_doctor \<lparr>model = None\<rparr>
        \<lparr>request_method = POST, get_json = Returned (PDict [(ascii ''message'', PInt 5)])\<rparr>
        (ascii ''2025-01-01T00:00:00''))) = 500
   \<and> body (reply (ai_doctor \<lparr>model = None\<rparr>
        \<lparr>request_method = POST, get_json = Returned (PDict [(ascii ''message'', PInt 5)])\<rparr>
        (ascii ''2025-01-01T00:00:00'')))
     = PDict [(ascii ''error'',
               PStr (ascii ''Server error: '' @ [39] @ ascii ''int'' @ [39]
                     @ ascii '' object has no attribute '' @ [39] @ ascii ''strip'' @ [39])),
              (ascii ''success'', PBool False)]"
proof -
  have len: "take 100 (attribute_error (PInt 5) (ascii ''strip''))
             = [39] @ ascii ''int'' @ [39] @ ascii '' object has no attribute '' @ [39]
               @ ascii ''strip'' @ [39]"
    by (simp add: attribute_error_def ascii_def)
  show ?thesis
    using len ai_doctor_message_not_string
      [where req = "\<lparr>request_method = POST, get_json = Returned (PDict [(ascii ''message'', PInt 5)])\<rparr>"
         and d = "[(ascii ''message'', PInt 5)]" and v = "PInt 5"
         and st = "\<lparr>model = None\<rparr>" and now = "ascii ''2025-01-01T00:00:00''"]
    by (simp add: status_server_error body_server_error)
qed

text \<open>
  C10. Whenever the reply is 400, validation has stopped the handler before the provider
  call: the provider is not called, nothing is logged, and the state is the one the
  handler was called in.
\<close>

theorem ai_doctor_400_no_effect:
  assumes "request_method req = POST"
    and "status (reply (ai_doctor st req now)) = 400"
  shows "provider_calls (events (ai_doctor st req now)) = []
       \<and> events (ai_doctor st req now) = []
       \<and> state (ai_doctor st req now) = st"
  using assms
  by (auto simp: ai_doctor_def try_block_def jsonify_def status_answer status_server_error
      provider_calls_def Let_def
      split: outcome.splits option.splits if_splits prod.splits)

theorem ai_doctor_400_no_effect_witness:
  "status (reply (ai_doctor
        \<lparr>model = Some \<lparr>model_name = ascii ''gemini-pro'',
                        generate_content = (\<lambda>p c. Returned None)\<rparr>\<rparr>
        \<lparr>request_method = POST, get_json = Returned (PDict [])\<rparr>
        (ascii ''2025-01-01T00:00:00''))) = 400
   \<and> events (ai_doctor
        \<lparr>model = Some \<lparr>model_name = ascii ''gemini-pro'',
                        generate_content = (\<lambda>p c. Returned None)\<rparr>\<rparr>
        \<lparr>request_method = POST, get_json = Returned (PDict [])\<rparr>
        (ascii ''2025-01-01T00:00:00'')) = []
   \<and> state (ai_doctor
        \<lparr>model = Some \<lparr>model_name = ascii ''gemini-pro'',
                        generate_content = (\<lambda>p c. Returned None)\<rparr>\<rparr>
        \<lparr>request_method = POST, get_json = Returned (PDict [])\<rparr>
        (ascii ''2025-01-01T00:00:00''))
     = \<lparr>model = Some \<lparr>model_name = ascii ''gemini-pro'',
                        generate_content = (\<lambda>p c. Returned None)\<rparr>\<rparr>"
proof -
  have s400: "status (reply (ai_doctor
        \<lparr>model = Some \<lparr>model_name = ascii ''gemini-pro'',
                        generate_content = (\<lambda>p c. Returned None)\<rparr>\<rparr>
        \<lparr>request_method = POST, get_json = Returned (PDict [])\<rparr>
        (ascii ''2025-01-01T00:00:00''))) = 400"
    by (simp add: ai_doctor_def try_block_def jsonify_def)
  show ?thesis
    using s400 ai_doctor_400_no_effect
      [where req = "\<lparr>request_method = POST, get_json = Returned (PDict [])\<rparr>"
         and st = "\<lparr>model = Some \<lparr>model_name = ascii ''gemini-pro'',
                                   generate_content = (\<lambda>p c. Returned None)\<rparr>\<rparr>"
         and now = "ascii ''2025-01-01T00:00:00''"]
    by simp
qed

section \<open>Claims about the specialists endpoint\<close>

text \<open>
  C8. The specialists endpoint answers 200 with the same five records on every call;
  each record has an identifier, a name, a specialty and a rating, and every rating is
  between 4.6 and 4.9.
\<close>

theorem get_specialists_fixed:
  "status get_specialists = 200
   \<and> body get_specialists
       = PDict [(ascii ''success'', PBool True), (ascii ''specialists'', PList specialists)]
   \<and> length specialists = 5
   \<and> list_all (\<lambda>s. \<exists>i n sp r.
          s = PDict [(ascii ''id'', PInt i), (ascii ''name'', PStr n),
                     (ascii ''specialty'', PStr sp), (ascii ''rating'', PFloat (Finite r))]
          \<and> 4.6 \<le> r \<and> r \<le> 4.9) specialists"
proof -
  have rec: "\<exists>i' n' sp r'.
          specialist i n s r
            = PDict [(ascii ''id'', PInt i'), (ascii ''name'', PStr n'),
                     (ascii ''specialty'', PStr sp), (ascii ''rating'', PFloat (Finite r'))]
          \<and> 4.6 \<le> r' \<and> r' \<le> 4.9"
    if "4.6 \<le> r" and "r \<le> 4.9" for i n s r
    unfolding specialist_def using that by blast
  have "list_all (\<lambda>s. \<exists>i n sp r.
          s = PDict [(ascii ''id'', PInt i), (ascii ''name'', PStr n),
                     (ascii ''specialty'', PStr sp), (ascii ''rating'', PFloat (Finite r))]
          \<and> 4.6 \<le> r \<and> r \<le> 4.9) specialists"
    unfolding specialists_def list.pred_inject
    by (intro conjI rec TrueI) simp_all
  then show ?thesis
    by (simp add: get_specialists_def jsonify_def specialists_def)
qed

end
